theory Spec2Isabelle
  imports Complex_Main "HOL-Library.Sublist"
begin

text \<open>
  A shallow embedding of the sandbox preview of the HTML editor: the component
  \<^verbatim>\<open>HtmlRenderBase.vue\<close>, which renders a document in an iframe, injects compiled style
  overrides and bridges scroll positions, and the container \<^verbatim>\<open>PreviewSandboxStack.vue\<close>,
  which keeps one shared scroll position for its two panels. Functions of the source
  keep their names and return \<open>exn + _\<close>, with \<open>Inl\<close> for a thrown exception; what they
  mutate (the document, the console) is passed in and returned. What the framework and
  the browser contribute (watchers that run when a prop changes, the scroll event of a
  document whose offsets changed) is stated in definitions of its own.
\<close>

section \<open>JavaScript values and strings\<close>

text \<open>
  The style store hands \<^verbatim>\<open>generateStyleText\<close> a reactive array whose run-time content
  TypeScript does not enforce, so the compiler is modelled over untyped values.
  \<open>JObj\<close> is a plain data object: its own enumerable string-keyed properties, in
  enumeration order. \<open>JNum\<close> carries the rendering \<^verbatim>\<open>Number::toString\<close> gives the
  number, the only thing the compiler ever does with it. Strings are \<open>char list\<close>;
  \<open>toLowerCase\<close> below acts on the ASCII letters, which is exact for the property names
  of CSS.
\<close>

datatype jsval =
    JUndefined
  | JNull
  | JBool bool
  | JNum string
  | JStr string
  | JSymbol
  | JObj "(string \<times> jsval) list"
  | JArr "jsval list"

datatype exn = TypeError

definition and_then :: "exn + 'a \<Rightarrow> ('a \<Rightarrow> exn + 'b) \<Rightarrow> exn + 'b" where
  "and_then r f = (case r of Inl e \<Rightarrow> Inl e | Inr x \<Rightarrow> f x)"

text \<open>\<^verbatim>\<open>Array.prototype.map\<close> with a callback that may throw: the first throw ends the loop.\<close>

fun map_throwing :: "('a \<Rightarrow> exn + 'b) \<Rightarrow> 'a list \<Rightarrow> exn + 'b list" where
  "map_throwing f [] = Inr []"
| "map_throwing f (x # xs) =
     (case f x of
        Inl e \<Rightarrow> Inl e
      | Inr y \<Rightarrow> (case map_throwing f xs of Inl e \<Rightarrow> Inl e | Inr ys \<Rightarrow> Inr (y # ys)))"

text \<open>\<^verbatim>\<open>try { body } catch (e) { handler }\<close>\<close>

definition try_catch :: "exn + 'a \<Rightarrow> (exn \<Rightarrow> exn + 'a) \<Rightarrow> exn + 'a" where
  "try_catch body handler = (case body of Inl e \<Rightarrow> handler e | Inr x \<Rightarrow> Inr x)"

text \<open>\<^verbatim>\<open>Array.prototype.join\<close> on an array of strings.\<close>

fun join :: "string \<Rightarrow> string list \<Rightarrow> string" where
  "join sep [] = []"
| "join sep [x] = x"
| "join sep (x # y # ys) = x @ sep @ join sep (y # ys)"

definition is_upper :: "char \<Rightarrow> bool" where
  "is_upper c = ((65::nat) \<le> of_char c \<and> of_char c \<le> (90::nat))"

definition lower_char :: "char \<Rightarrow> char" where
  "lower_char c = (if is_upper c then char_of (of_char c + (32::nat)) else c)"

text \<open>\<^verbatim>\<open>key.replace(/([A-Z])/g, `-$1`)\<close>: every capital gets a hyphen in front of it.\<close>

fun replace_upper :: "string \<Rightarrow> string" where
  "replace_upper [] = []"
| "replace_upper (c # cs) =
     (if is_upper c then CHR ''-'' # c # replace_upper cs else c # replace_upper cs)"

definition toLowerCase :: "string \<Rightarrow> string" where
  "toLowerCase s = map lower_char s"

text \<open>An array index as a property key: its decimal digits.\<close>

definition digit_char :: "nat \<Rightarrow> char" where
  "digit_char d = char_of (of_char CHR ''0'' + d)"

function index_key :: "nat \<Rightarrow> string" where
  "index_key i =
     (if i div 10 = 0 then [digit_char i]
      else index_key (i div 10) @ [digit_char (i mod 10)])"
  by pat_completeness auto
termination
  by (relation "measure (\<lambda>i. i)") auto

text \<open>
  Reading the property \<open>k\<close> of a value. Only \<^verbatim>\<open>styles\<close> and \<^verbatim>\<open>selector\<close> are ever
  read, which no prototype of a primitive, array or string defines.
\<close>

fun get_prop :: "jsval \<Rightarrow> string \<Rightarrow> exn + jsval" where
  "get_prop JUndefined k = Inl TypeError"
| "get_prop JNull k = Inl TypeError"
| "get_prop (JObj kvs) k = Inr (case map_of kvs k of Some v \<Rightarrow> v | None \<Rightarrow> JUndefined)"
| "get_prop v k = Inr JUndefined"

definition indexed :: "jsval list \<Rightarrow> (string \<times> jsval) list" where
  "indexed xs = zip (map index_key [0..<length xs]) xs"

fun Object_entries :: "jsval \<Rightarrow> exn + (string \<times> jsval) list" where
  "Object_entries JUndefined = Inl TypeError"
| "Object_entries JNull = Inl TypeError"
| "Object_entries (JObj kvs) = Inr kvs"
| "Object_entries (JArr xs) = Inr (indexed xs)"
| "Object_entries (JStr s) = Inr (indexed (map (\<lambda>c. JStr [c]) s))"
| "Object_entries v = Inr []"

text \<open>
  The conversion a template literal applies to \<^verbatim>\<open>${value}\<close>. A symbol throws; an
  array is joined with commas, its \<^verbatim>\<open>undefined\<close> and \<^verbatim>\<open>null\<close> elements as empty strings;
  a data object gives \<^verbatim>\<open>[object Object]\<close> through the inherited \<^verbatim>\<open>toString\<close>, and throws
  when an own property of that name, which is data and cannot be called, hides it.
\<close>

fun ToString :: "jsval \<Rightarrow> exn + string"
  and ToString_elems :: "jsval list \<Rightarrow> exn + string list" where
  "ToString JUndefined = Inr ''undefined''"
| "ToString JNull = Inr ''null''"
| "ToString (JBool b) = Inr (if b then ''true'' else ''false'')"
| "ToString (JNum r) = Inr r"
| "ToString (JStr s) = Inr s"
| "ToString JSymbol = Inl TypeError"
| "ToString (JObj kvs) =
     (if map_of kvs ''toString'' = None then Inr ''[object Object]'' else Inl TypeError)"
| "ToString (JArr xs) =
     (case ToString_elems xs of Inl e \<Rightarrow> Inl e | Inr ss \<Rightarrow> Inr (join '','' ss))"
| "ToString_elems [] = Inr []"
| "ToString_elems (x # xs) =
     (case (case x of JUndefined \<Rightarrow> Inr [] | JNull \<Rightarrow> Inr [] | _ \<Rightarrow> ToString x) of
        Inl e \<Rightarrow> Inl e
      | Inr s \<Rightarrow> (case ToString_elems xs of Inl e \<Rightarrow> Inl e | Inr ss \<Rightarrow> Inr (s # ss)))"

section \<open>The style compiler: \<^verbatim>\<open>generateStyleText\<close>\<close>

text \<open>One entry of \<^verbatim>\<open>Object.entries(override.styles)\<close> becomes one declaration line.\<close>

definition style_line :: "string \<times> jsval \<Rightarrow> exn + string" where
  "style_line entry =
     (case entry of (key, val) \<Rightarrow>
        and_then (ToString val) (\<lambda>v.
          Inr (''  '' @ toLowerCase (replace_upper key) @ '': '' @ v @ '' !important;'')))"

definition override_block :: "jsval \<Rightarrow> exn + string" where
  "override_block override =
     and_then (get_prop override ''styles'') (\<lambda>st.
     and_then (Object_entries st) (\<lambda>entries.
     and_then (map_throwing style_line entries) (\<lambda>ls.
     and_then (get_prop override ''selector'') (\<lambda>sel.
     and_then (ToString sel) (\<lambda>selector_text.
       Inr (selector_text @ '' {\<newline>'' @ join ''\<newline>'' ls @ ''\<newline>}''))))))"

text \<open>The body of the \<^verbatim>\<open>try\<close> block. Calling \<^verbatim>\<open>.map\<close> on anything but an array throws.\<close>

definition generateStyleText_try :: "jsval \<Rightarrow> exn + string" where
  "generateStyleText_try overrides =
     (case overrides of
        JArr ovs \<Rightarrow>
          and_then (map_throwing override_block ovs) (\<lambda>blocks.
            Inr (join ''\<newline>\<newline>'' blocks))
      | _ \<Rightarrow> Inl TypeError)"

section \<open>The rendering context\<close>

text \<open>
  The document of the iframe, as far as the component touches it: the two scroll offsets
  it reads and assigns, the element trees under \<^verbatim>\<open>head\<close> and \<^verbatim>\<open>body\<close> in which
  \<^verbatim>\<open>getElementById\<close> searches in tree order (\<^verbatim>\<open>html\<close>, \<^verbatim>\<open>head\<close> and \<^verbatim>\<open>body\<close>
  themselves never carry the id of the style element), and the number of scroll
  listeners registered on it. An assignment to a scroll offset stores the value: the
  range of the scroll container is not modelled.
\<close>

text \<open>An element has a tag name, an id (empty when it has none) and children.\<close>

datatype node =
    Element string string "node list"
  | Text string

fun textContent :: "node \<Rightarrow> string"
  and textContent_list :: "node list \<Rightarrow> string" where
  "textContent (Text t) = t"
| "textContent (Element tg i cs) = textContent_list cs"
| "textContent_list [] = []"
| "textContent_list (n # ns) = textContent n @ textContent_list ns"

fun find_node :: "string \<Rightarrow> node \<Rightarrow> node option"
  and find_nodes :: "string \<Rightarrow> node list \<Rightarrow> node option" where
  "find_node i (Text t) = None"
| "find_node i (Element tg j cs) =
     (if j = i then Some (Element tg j cs) else find_nodes i cs)"
| "find_nodes i [] = None"
| "find_nodes i (n # ns) =
     (case find_node i n of Some e \<Rightarrow> Some e | None \<Rightarrow> find_nodes i ns)"

text \<open>Assigning \<^verbatim>\<open>textContent\<close> replaces the children by one text node, or by none.\<close>

definition text_children :: "string \<Rightarrow> node list" where
  "text_children t = (if t = [] then [] else [Text t])"

text \<open>
  \<^verbatim>\<open>e.textContent = t\<close> for the element \<open>e\<close> that \<^verbatim>\<open>getElementById(i)\<close> returned: the
  first element with id \<open>i\<close> in tree order is rebuilt, everything else is kept.
\<close>

fun set_text_node :: "string \<Rightarrow> string \<Rightarrow> node \<Rightarrow> node"
  and set_text_nodes :: "string \<Rightarrow> string \<Rightarrow> node list \<Rightarrow> node list" where
  "set_text_node i t (Text u) = Text u"
| "set_text_node i t (Element tg j cs) =
     (if j = i then Element tg j (text_children t) else Element tg j (set_text_nodes i t cs))"
| "set_text_nodes i t [] = []"
| "set_text_nodes i t (n # ns) =
     (case find_node i n of
        Some e \<Rightarrow> set_text_node i t n # ns
      | None \<Rightarrow> n # set_text_nodes i t ns)"

record document =
  documentElement_scrollTop :: real
  body_scrollTop :: real
  head :: "node list"
  body :: "node list"
  scroll_listeners :: nat

definition getElementById :: "document \<Rightarrow> string \<Rightarrow> node option" where
  "getElementById doc i =
     (case find_nodes i (head doc) of Some e \<Rightarrow> Some e | None \<Rightarrow> find_nodes i (body doc))"

definition set_textContent :: "document \<Rightarrow> string \<Rightarrow> string \<Rightarrow> document" where
  "set_textContent doc i t =
     (case find_nodes i (head doc) of
        Some e \<Rightarrow> doc\<lparr>head := set_text_nodes i t (head doc)\<rparr>
      | None \<Rightarrow> doc\<lparr>body := set_text_nodes i t (body doc)\<rparr>)"

section \<open>The component \<^verbatim>\<open>HtmlRenderBase\<close>\<close>

text \<open>
  The state of one mounted component: its props, the \<^verbatim>\<open>styleOverrides\<close> of the style
  store it reads, the iframe behind \<^verbatim>\<open>iframeRef\<close> (absent before mount; its
  \<^verbatim>\<open>contentDocument\<close> may be absent too), and what was written to the console.
  A number is a real: \<^verbatim>\<open>NaN\<close>, the infinities and rounding are not modelled.
\<close>

record surface_props =
  htmlContent :: string
  scrollTop :: "real option"
  showModifiedMarkers :: "bool option"

record iframe =
  contentDocument :: "document option"

datatype log_entry = ConsoleError string exn

record surface =
  props :: surface_props
  styleOverrides :: jsval
  iframeRef :: "iframe option"
  console :: "log_entry list"

datatype emitted = EmitScroll real | EmitLoad document

definition STYLE_ELEMENT_ID :: string where
  "STYLE_ELEMENT_ID = ''preview-style-overrides''"

definition generateStyleText :: "surface \<Rightarrow> exn + (string \<times> surface)" where
  "generateStyleText s =
     try_catch
       (and_then (generateStyleText_try (styleOverrides s)) (\<lambda>t. Inr (t, s)))
       (\<lambda>e. Inr ([], s\<lparr>console :=
                 console s @ [ConsoleError ''Failed to generate style overrides:'' e]\<rparr>))"

text \<open>\<^verbatim>\<open>iframeRef.value?.contentDocument\<close>, and the write-back of a document mutated in place.\<close>

definition live_document :: "surface \<Rightarrow> document option" where
  "live_document s = (case iframeRef s of None \<Rightarrow> None | Some fr \<Rightarrow> contentDocument fr)"

definition put_document :: "document \<Rightarrow> surface \<Rightarrow> surface" where
  "put_document doc s =
     s\<lparr>iframeRef := map_option (\<lambda>fr. fr\<lparr>contentDocument := Some doc\<rparr>) (iframeRef s)\<rparr>"

definition updateIframeStyles :: "surface \<Rightarrow> exn + surface" where
  "updateIframeStyles s =
     (case live_document s of
        None \<Rightarrow> Inr s
      | Some doc \<Rightarrow>
          (let doc1 =
                 (case getElementById doc STYLE_ELEMENT_ID of
                    None \<Rightarrow> doc\<lparr>head := head doc @ [Element ''style'' STYLE_ELEMENT_ID []]\<rparr>
                  | Some e \<Rightarrow> doc)
           in and_then (generateStyleText s) (\<lambda>(text, s1).
                Inr (put_document (set_textContent doc1 STYLE_ELEMENT_ID text) s1))))"


section \<open>The payload: \<^verbatim>\<open>generateFullHtml\<close>\<close>

text \<open>
  The template literal, cut at its three interpolations. Characters outside ASCII are
  given by their UTF-8 bytes.
\<close>








text \<open>\<^verbatim>\<open>a || b\<close> on numbers: the first operand unless it is zero.\<close>

definition js_or :: "real \<Rightarrow> real \<Rightarrow> real" where
  "js_or a b = (if a \<noteq> 0 then a else b)"

text \<open>The closure registered as scroll listener: what it passes to \<^verbatim>\<open>emit(`scroll`, ...)\<close>.\<close>

definition scroll_listener :: "document \<Rightarrow> emitted" where
  "scroll_listener doc =
     EmitScroll (js_or (documentElement_scrollTop doc) (body_scrollTop doc))"


definition handleLoad :: "surface \<Rightarrow> exn + (surface \<times> emitted list)" where
  "handleLoad s =
     (case live_document s of
        None \<Rightarrow> Inr (s, [])
      | Some doc0 \<Rightarrow>
          and_then (updateIframeStyles s) (\<lambda>s1.
            (case live_document s1 of
               None \<Rightarrow> Inr (s1, [])
             | Some doc \<Rightarrow>
                 (let doc2 = doc\<lparr>scroll_listeners := Suc (scroll_listeners doc)\<rparr>;
                      doc3 = (case scrollTop (props s1) of
                                None \<Rightarrow> doc2
                              | Some v \<Rightarrow> doc2\<lparr>documentElement_scrollTop := v,
                                              body_scrollTop := v\<rparr>)
                  in Inr (put_document doc3 s1, [EmitLoad doc])))))"

text \<open>The callback of the watcher on \<^verbatim>\<open>props.scrollTop\<close>.\<close>

definition watch_scrollTop :: "surface \<Rightarrow> real option \<Rightarrow> exn + surface" where
  "watch_scrollTop s newVal =
     (case live_document s of
        None \<Rightarrow> Inr s
      | Some doc \<Rightarrow>
          (case newVal of
             None \<Rightarrow> Inr s
           | Some v \<Rightarrow>
               (let currentScroll = js_or (documentElement_scrollTop doc) (body_scrollTop doc)
                in if \<bar>currentScroll - v\<bar> > 2
                   then Inr (put_document
                               (doc\<lparr>documentElement_scrollTop := v, body_scrollTop := v\<rparr>) s)
                   else Inr s)))"

section \<open>The host: scroll events and reactive props\<close>

text \<open>
  The browser fires \<^verbatim>\<open>scroll\<close> at a document whose scroll position has changed; every
  listener registered by \<open>handleLoad\<close> then runs once and emits.
\<close>

definition dispatch_scroll :: "surface \<Rightarrow> emitted list" where
  "dispatch_scroll s =
     (case live_document s of
        None \<Rightarrow> []
      | Some doc \<Rightarrow> replicate (scroll_listeners doc) (scroll_listener doc))"

definition scroll_offsets :: "surface \<Rightarrow> (real \<times> real) option" where
  "scroll_offsets s =
     map_option (\<lambda>doc. (documentElement_scrollTop doc, body_scrollTop doc)) (live_document s)"

text \<open>
  The parent passes a value for the prop \<^verbatim>\<open>scrollTop\<close>. The watcher runs only when the
  value differs from the previous one; an error in the callback is left to the
  framework's handler. What the surface emits afterwards is returned with the state.
\<close>

definition receive_scrollTop :: "real option \<Rightarrow> surface \<Rightarrow> surface \<times> emitted list" where
  "receive_scrollTop newVal s =
     (if scrollTop (props s) = newVal then (s, [])
      else (let s1 = s\<lparr>props := (props s)\<lparr>scrollTop := newVal\<rparr>\<rparr>
            in case watch_scrollTop s1 newVal of
                 Inl e \<Rightarrow> (s1, [])
               | Inr s2 \<Rightarrow>
                   (s2, if scroll_offsets s2 = scroll_offsets s1 then []
                        else dispatch_scroll s2)))"


section \<open>The container \<^verbatim>\<open>PreviewSandboxStack\<close>\<close>

datatype panel = Preview | Sandbox

text \<open>
  \<open>renderBase\<close> is the \<^verbatim>\<open>HtmlRenderBase\<close> of the sandbox panel, mounted only while
  \<^verbatim>\<open>isSandboxActive\<close> holds.
\<close>

record stack =
  sharedScrollTop :: real
  editBar :: surface
  renderBase :: "surface option"

definition handleScroll :: "real \<Rightarrow> stack \<Rightarrow> stack" where
  "handleScroll p st = st\<lparr>sharedScrollTop := p\<rparr>"

definition scroll_events :: "panel \<Rightarrow> emitted list \<Rightarrow> (panel \<times> real) list" where
  "scroll_events pn es = concat (map (\<lambda>e. case e of EmitScroll p \<Rightarrow> [(pn, p)] | EmitLoad d \<Rightarrow> []) es)"

text \<open>
  Modelled from the spec: \<^verbatim>\<open>HtmlElementEditBar\<close> is not among the sources. The spec
  describes both panels as render surfaces, so the preview panel is taken to treat its
  \<^verbatim>\<open>scroll-top\<close> prop and to emit \<^verbatim>\<open>scroll\<close> as \<^verbatim>\<open>HtmlRenderBase\<close> does.

  The template binds \<^verbatim>\<open>:scroll-top="sharedScrollTop"\<close> on both children; rendering hands
  the shared value to each mounted child and collects the \<^verbatim>\<open>scroll\<close> events they emit.
\<close>

definition render_scrollTop :: "stack \<Rightarrow> stack \<times> (panel \<times> real) list" where
  "render_scrollTop st =
     (let (a, ea) = receive_scrollTop (Some (sharedScrollTop st)) (editBar st);
          (b, eb) = (case renderBase st of
                       None \<Rightarrow> (None, [])
                     | Some r \<Rightarrow>
                         (let (r', er) = receive_scrollTop (Some (sharedScrollTop st)) r
                          in (Some r', er)))
      in (st\<lparr>editBar := a, renderBase := b\<rparr>,
          scroll_events Preview ea @ scroll_events Sandbox eb))"

text \<open>
  A \<^verbatim>\<open>scroll\<close> event of either child reaches \<open>handleScroll\<close> through \<^verbatim>\<open>@scroll\<close>; the
  handler is not told which child emitted it.
\<close>

definition report :: "panel \<times> real \<Rightarrow> stack \<Rightarrow> stack \<times> (panel \<times> real) list" where
  "report ev st = render_scrollTop (handleScroll (snd ev) st)"


section \<open>Typed style rules and the stylesheet the specification describes\<close>

text \<open>
  A rule as the store's type has it: a selector and string-valued declarations, in
  insertion order. \<open>rules_val\<close> is the array the compiler receives for a list of rules.
\<close>

record StyleOverride =
  selector :: string
  styles :: "(string \<times> string) list"

definition rule_val :: "StyleOverride \<Rightarrow> jsval" where
  "rule_val r =
     JObj [(''selector'', JStr (selector r)),
           (''styles'', JObj (map (\<lambda>d. (fst d, JStr (snd d))) (styles r)))]"

definition rules_val :: "StyleOverride list \<Rightarrow> jsval" where
  "rules_val rs = JArr (map rule_val rs)"

text \<open>
  The specification's wording, for comparison with the code: a property name goes from
  word-boundary case to hyphen case (a capital becomes a hyphen and its lower-case
  letter), a declaration stands on a line of its own and ends in \<^verbatim>\<open>!important;\<close>, a
  rule is the block \<^verbatim>\<open>selector { ... }\<close>.
\<close>

fun spec_hyphen_case :: "string \<Rightarrow> string" where
  "spec_hyphen_case [] = []"
| "spec_hyphen_case (c # cs) =
     (if is_upper c then CHR ''-'' # lower_char c # spec_hyphen_case cs
      else c # spec_hyphen_case cs)"

definition spec_declaration :: "string \<times> string \<Rightarrow> string" where
  "spec_declaration d =
     ''  '' @ spec_hyphen_case (fst d) @ '': '' @ snd d @ '' !important;''"

definition spec_block :: "StyleOverride \<Rightarrow> string" where
  "spec_block r =
     join ''\<newline>''
       [selector r @ '' {'', join ''\<newline>'' (map spec_declaration (styles r)), ''}'']"

definition spec_compile :: "StyleOverride list \<Rightarrow> string" where
  "spec_compile rs = join ''\<newline>\<newline>'' (map spec_block rs)"




text \<open>The surface mounted in a panel, if any.\<close>

definition panel_surface :: "panel \<Rightarrow> stack \<Rightarrow> surface option" where
  "panel_surface pn st = (case pn of Preview \<Rightarrow> Some (editBar st) | Sandbox \<Rightarrow> renderBase st)"

text \<open>
  A loaded surface for the examples: one paragraph of content, no style rule, one scroll
  listener, the given two offsets and the given \<^verbatim>\<open>scrollTop\<close> prop.
\<close>

definition surface_at :: "real \<Rightarrow> real \<Rightarrow> real option \<Rightarrow> surface" where
  "surface_at de bd sp =
     \<lparr>props = \<lparr>htmlContent = ''<p>x</p>'', scrollTop = sp, showModifiedMarkers = None\<rparr>,
      styleOverrides = JArr [],
      iframeRef = Some \<lparr>contentDocument = Some
        \<lparr>documentElement_scrollTop = de, body_scrollTop = bd, head = [], body = [],
         scroll_listeners = 1\<rparr>\<rparr>,
      console = []\<rparr>"

text \<open>
  Further states for the examples: a component that is not mounted yet, with the given
  content, marker flag and store; a mounted iframe that has no document; and a loaded
  document whose head holds the style element with the given children, scrolled to 30.
\<close>

definition unmounted_surface :: "string \<Rightarrow> bool option \<Rightarrow> jsval \<Rightarrow> surface" where
  "unmounted_surface content markers rules =
     \<lparr>props = \<lparr>htmlContent = content, scrollTop = None, showModifiedMarkers = markers\<rparr>,
      styleOverrides = rules, iframeRef = None, console = []\<rparr>"

definition unloaded_surface :: "real option \<Rightarrow> surface" where
  "unloaded_surface sp =
     \<lparr>props = \<lparr>htmlContent = ''<p>x</p>'', scrollTop = sp, showModifiedMarkers = None\<rparr>,
      styleOverrides = JArr [], iframeRef = Some \<lparr>contentDocument = None\<rparr>, console = []\<rparr>"



section \<open>Facts about strings\<close>





section \<open>The style compiler on typed rules\<close>

lemma lower_char_id: "\<not> is_upper c \<Longrightarrow> lower_char c = c"
  by (simp add: lower_char_def)

lemma hyphen_not_upper: "\<not> is_upper CHR ''-''"
  by (simp add: is_upper_def)

text \<open>The code's regular-expression replacement followed by lower-casing is the hyphen case.\<close>

lemma toLowerCase_replace_upper: "toLowerCase (replace_upper k) = spec_hyphen_case k"
  by (induction k) (simp_all add: toLowerCase_def lower_char_id hyphen_not_upper)

lemma style_lines_typed:
  "map_throwing style_line (map (\<lambda>d. (fst d, JStr (snd d))) ds) = Inr (map spec_declaration ds)"
  by (induction ds)
     (simp_all add: style_line_def and_then_def spec_declaration_def toLowerCase_replace_upper)

lemma override_block_typed: "override_block (rule_val r) = Inr (spec_block r)"
  by (simp add: override_block_def rule_val_def and_then_def style_lines_typed spec_block_def)

lemma override_blocks_typed:
  "map_throwing override_block (map rule_val rs) = Inr (map spec_block rs)"
  by (induction rs) (simp_all add: override_block_typed)

lemma generateStyleText_try_typed: "generateStyleText_try (rules_val rs) = Inr (spec_compile rs)"
  by (simp add: generateStyleText_try_def rules_val_def and_then_def override_blocks_typed
        spec_compile_def)



section \<open>The \<^verbatim>\<open>try\<close>/\<^verbatim>\<open>catch\<close> of \<^verbatim>\<open>generateStyleText\<close>\<close>

lemma generateStyleText_ok:
  "generateStyleText_try (styleOverrides s) = Inr t \<Longrightarrow> generateStyleText s = Inr (t, s)"
  by (simp add: generateStyleText_def try_catch_def and_then_def)

lemma generateStyleText_caught:
  "generateStyleText_try (styleOverrides s) = Inl e \<Longrightarrow>
   generateStyleText s =
     Inr ([], s\<lparr>console := console s @ [ConsoleError ''Failed to generate style overrides:'' e]\<rparr>)"
  by (simp add: generateStyleText_def try_catch_def and_then_def)

lemma generateStyleText_cases:
  obtains (ok) t where "generateStyleText_try (styleOverrides s) = Inr t"
      and "generateStyleText s = Inr (t, s)"
  | (caught) e where "generateStyleText_try (styleOverrides s) = Inl e"
      and "generateStyleText s =
        Inr ([], s\<lparr>console := console s @ [ConsoleError ''Failed to generate style overrides:'' e]\<rparr>)"
  by (cases "generateStyleText_try (styleOverrides s)")
     (auto dest: generateStyleText_ok generateStyleText_caught)


lemma generateStyleText_same_rules:
  assumes "generateStyleText s = Inr (css, s1)" and "styleOverrides u = styleOverrides s"
  shows "\<exists>u1. generateStyleText u = Inr (css, u1)"
proof (rule generateStyleText_cases [of s])
  fix t assume "generateStyleText_try (styleOverrides s) = Inr t" "generateStyleText s = Inr (t, s)"
  with assms show ?thesis by (simp add: generateStyleText_ok)
next
  fix e assume "generateStyleText_try (styleOverrides s) = Inl e"
    "generateStyleText s =
        Inr ([], s\<lparr>console := console s @ [ConsoleError ''Failed to generate style overrides:'' e]\<rparr>)"
  with assms show ?thesis by (simp add: generateStyleText_caught)
qed

lemma generateStyleText_text_unique:
  assumes "generateStyleText s = Inr (css, s1)" and "generateStyleText u = Inr (css', u1)"
    and "styleOverrides u = styleOverrides s"
  shows "css' = css"
  using generateStyleText_same_rules [OF assms(1,3)] assms(2) by auto

text \<open>
  C5. The style compiler never raises. Whatever the store holds, \<open>generateStyleText\<close>
  returns normally: either the \<^verbatim>\<open>try\<close> block produced the stylesheet text and that text
  is returned with the state untouched, or the block threw, the failure is written to
  the console and the empty string is returned. No call ends in an exception.
\<close>

theorem generateStyleText_never_raises:
  "(\<exists>t. generateStyleText_try (styleOverrides s) = Inr t \<and> generateStyleText s = Inr (t, s))
   \<or> (\<exists>e. generateStyleText_try (styleOverrides s) = Inl e \<and>
          generateStyleText s =
            Inr ([], s\<lparr>console :=
                      console s @ [ConsoleError ''Failed to generate style overrides:'' e]\<rparr>))"
  by (rule generateStyleText_cases [of s]) blast+

text \<open>
  A store holding a rule whose declaration value is a symbol, followed by \<^verbatim>\<open>null\<close>:
  the block throws, the call returns the empty string and logs.
\<close>

theorem generateStyleText_never_raises_witness:
  "generateStyleText
     (unmounted_surface ''<p>x</p>'' None
        (JArr [JObj [(''selector'', JStr ''p''), (''styles'', JObj [(''color'', JSymbol)])],
               JNull]))
   = Inr ([],
       (unmounted_surface ''<p>x</p>'' None
          (JArr [JObj [(''selector'', JStr ''p''), (''styles'', JObj [(''color'', JSymbol)])],
                 JNull]))
       \<lparr>console := [ConsoleError ''Failed to generate style overrides:'' TypeError]\<rparr>)"
  using generateStyleText_never_raises
    [of "unmounted_surface ''<p>x</p>'' None
          (JArr [JObj [(''selector'', JStr ''p''), (''styles'', JObj [(''color'', JSymbol)])],
                 JNull])"]
  by (simp add: unmounted_surface_def generateStyleText_try_def override_block_def
        and_then_def style_line_def)

text \<open>
  C6. Determinism. Two calls of the compiler on the same rules return the same text,
  whatever else differs between the two states; in particular the call that follows a
  first call, on the state that call left behind, returns the same text again. Compiling
  the empty sequence of rules gives the empty string.
\<close>

theorem generateStyleText_deterministic:
  "(styleOverrides s' = styleOverrides s \<longrightarrow>
      (\<exists>t s1 s2 s3. generateStyleText s = Inr (t, s1) \<and> generateStyleText s' = Inr (t, s2)
         \<and> generateStyleText s1 = Inr (t, s3)))
   \<and> (styleOverrides s = rules_val [] \<longrightarrow> generateStyleText s = Inr ([], s))"
proof (intro conjI impI)
  assume same: "styleOverrides s' = styleOverrides s"
  show "\<exists>t s1 s2 s3. generateStyleText s = Inr (t, s1) \<and> generateStyleText s' = Inr (t, s2)
         \<and> generateStyleText s1 = Inr (t, s3)"
  proof (cases "generateStyleText_try (styleOverrides s)")
    case (Inr t)
    with same have "generateStyleText s = Inr (t, s)" and "generateStyleText s' = Inr (t, s')"
      by (simp_all add: generateStyleText_ok)
    then show ?thesis by blast
  next
    case (Inl e)
    let ?log = "\<lambda>u. u\<lparr>console :=
                   console u @ [ConsoleError ''Failed to generate style overrides:'' e]\<rparr>"
    from Inl same have 1: "generateStyleText s = Inr ([], ?log s)"
      and 2: "generateStyleText s' = Inr ([], ?log s')"
      by (simp_all add: generateStyleText_caught)
    from Inl have "generateStyleText_try (styleOverrides (?log s)) = Inl e" by simp
    then have 3: "generateStyleText (?log s) = Inr ([], ?log (?log s))"
      by (rule generateStyleText_caught)
    from 1 2 3 show ?thesis by blast
  qed
next
  assume "styleOverrides s = rules_val []"
  then have "generateStyleText_try (styleOverrides s) = Inr []"
    by (simp add: generateStyleText_try_typed spec_compile_def)
  then show "generateStyleText s = Inr ([], s)" by (rule generateStyleText_ok)
qed

text \<open>
  Two surfaces that hold the same single rule and differ in content, scroll prop and
  console; and a surface whose store holds no rule.
\<close>

theorem generateStyleText_deterministic_witness:
  "(\<exists>t s1 s2 s3.
      generateStyleText
        (unmounted_surface ''a'' None
           (rules_val [\<lparr>selector = ''p'', styles = [(''color'', ''red'')]\<rparr>])) = Inr (t, s1)
      \<and> generateStyleText
        (unmounted_surface ''b'' (Some True)
           (rules_val [\<lparr>selector = ''p'', styles = [(''color'', ''red'')]\<rparr>])) = Inr (t, s2)
      \<and> generateStyleText s1 = Inr (t, s3))
   \<and> generateStyleText (unmounted_surface ''a'' None (rules_val []))
      = Inr ([], unmounted_surface ''a'' None (rules_val []))"
  using
    generateStyleText_deterministic
      [of "unmounted_surface ''b'' (Some True)
             (rules_val [\<lparr>selector = ''p'', styles = [(''color'', ''red'')]\<rparr>])"
          "unmounted_surface ''a'' None
             (rules_val [\<lparr>selector = ''p'', styles = [(''color'', ''red'')]\<rparr>])"]
    generateStyleText_deterministic
      [of "unmounted_surface ''a'' None (rules_val [])"
          "unmounted_surface ''a'' None (rules_val [])"]
  by (simp add: unmounted_surface_def)



section \<open>The scroll watcher and the scroll listener\<close>

lemma live_document_put:
  "live_document s = Some doc \<Longrightarrow> live_document (put_document doc' s) = Some doc'"
  by (auto simp: live_document_def put_document_def split: option.splits)



lemma watch_scrollTop_apply:
  assumes "live_document s = Some doc"
    and "\<bar>js_or (documentElement_scrollTop doc) (body_scrollTop doc) - p\<bar> > 2"
  shows "watch_scrollTop s (Some p) =
           Inr (put_document (doc\<lparr>documentElement_scrollTop := p, body_scrollTop := p\<rparr>) s)"
  using assms by (simp add: watch_scrollTop_def)

lemma watch_scrollTop_skip:
  assumes "live_document s = Some doc"
    and "\<not> \<bar>js_or (documentElement_scrollTop doc) (body_scrollTop doc) - p\<bar> > 2"
  shows "watch_scrollTop s (Some p) = Inr s"
  using assms by (simp add: watch_scrollTop_def)

lemma watch_scrollTop_no_document:
  "live_document s = None \<Longrightarrow> watch_scrollTop s newVal = Inr s"
  by (simp add: watch_scrollTop_def)

lemma scroll_offsets_put:
  "live_document s = Some doc \<Longrightarrow>
   scroll_offsets (put_document doc' s)
     = Some (documentElement_scrollTop doc', body_scrollTop doc')"
  by (simp add: scroll_offsets_def live_document_put)



text \<open>
  C9. Without a rendering context (the iframe is not mounted, or it has no document)
  nothing is applied and nothing is raised: the scroll watcher returns with the surface
  unchanged, the surface receiving a new external position only records the new prop
  and emits nothing, and the style update and the load handler return likewise.
\<close>

theorem no_context_no_op:
  assumes "live_document s = None"
  shows "watch_scrollTop s newVal = Inr s
     \<and> receive_scrollTop newVal s = (s\<lparr>props := (props s)\<lparr>scrollTop := newVal\<rparr>\<rparr>, [])
     \<and> updateIframeStyles s = Inr s
     \<and> handleLoad s = Inr (s, [])"
proof -
  have "live_document (s\<lparr>props := (props s)\<lparr>scrollTop := newVal\<rparr>\<rparr>) = None"
    using assms by (simp add: live_document_def)
  then have "watch_scrollTop (s\<lparr>props := (props s)\<lparr>scrollTop := newVal\<rparr>\<rparr>) newVal
      = Inr (s\<lparr>props := (props s)\<lparr>scrollTop := newVal\<rparr>\<rparr>)"
    by (rule watch_scrollTop_no_document)
  then have "receive_scrollTop newVal s = (s\<lparr>props := (props s)\<lparr>scrollTop := newVal\<rparr>\<rparr>, [])"
    by (cases "scrollTop (props s) = newVal") (auto simp: receive_scrollTop_def)
  with assms show ?thesis
    by (simp add: watch_scrollTop_no_document updateIframeStyles_def handleLoad_def)
qed

text \<open>An iframe that is mounted but has no document yet, sent position 250.\<close>

theorem no_context_no_op_witness:
  "live_document (unloaded_surface (Some 0)) = None
   \<and> watch_scrollTop (unloaded_surface (Some 0)) (Some 250) = Inr (unloaded_surface (Some 0))
   \<and> receive_scrollTop (Some 250) (unloaded_surface (Some 0))
       = (unloaded_surface (Some 250), [])
   \<and> updateIframeStyles (unloaded_surface (Some 0)) = Inr (unloaded_surface (Some 0))"
proof -
  have hyp: "live_document (unloaded_surface (Some 0)) = None"
    by (simp add: unloaded_surface_def live_document_def)
  have "(unloaded_surface (Some 0))\<lparr>props := (props (unloaded_surface (Some 0)))
            \<lparr>scrollTop := Some 250\<rparr>\<rparr> = unloaded_surface (Some 250)"
    by (simp add: unloaded_surface_def)
  with no_context_no_op [OF hyp, of "Some 250"] hyp show ?thesis by simp
qed

lemma dispatch_scroll_live:
  "live_document s = Some doc \<Longrightarrow>
   dispatch_scroll s = replicate (scroll_listeners doc) (scroll_listener doc)"
  by (simp add: dispatch_scroll_def)

text \<open>
  C3, as the code has it. Every \<^verbatim>\<open>scroll\<close> event a surface emits for a scroll event in
  its context carries the document-level offset when that offset is not zero, and the
  body-level offset otherwise. That is the larger of the two offsets exactly when the
  document-level offset is non-zero and not below the body-level one, or is zero while
  the body-level offset is not negative.
\<close>

theorem scroll_report_first_nonzero:
  assumes "live_document s = Some doc"
  shows "(\<forall>e \<in> set (dispatch_scroll s).
            e = EmitScroll (if documentElement_scrollTop doc \<noteq> 0
                            then documentElement_scrollTop doc else body_scrollTop doc))
     \<and> (scroll_listener doc
          = EmitScroll (max (documentElement_scrollTop doc) (body_scrollTop doc))
        \<longleftrightarrow> (documentElement_scrollTop doc \<noteq> 0
               \<and> body_scrollTop doc \<le> documentElement_scrollTop doc)
           \<or> (documentElement_scrollTop doc = 0 \<and> 0 \<le> body_scrollTop doc))"
  using assms
  by (auto simp: dispatch_scroll_live scroll_listener_def js_or_def max_def)

text \<open>A context scrolled at the body level only: the event carries 40, the larger offset.\<close>

theorem scroll_report_first_nonzero_witness:
  "live_document (surface_at 0 40 None)
     = Some \<lparr>documentElement_scrollTop = 0, body_scrollTop = 40, head = [], body = [],
             scroll_listeners = 1\<rparr>
   \<and> dispatch_scroll (surface_at 0 40 None) = [EmitScroll 40]
   \<and> scroll_listener
        \<lparr>documentElement_scrollTop = 0, body_scrollTop = 40, head = [], body = [],
         scroll_listeners = 1\<rparr> = EmitScroll (max 0 40)"
proof -
  let ?d = "\<lparr>documentElement_scrollTop = 0, body_scrollTop = 40, head = [], body = [],
         scroll_listeners = 1\<rparr>"
  have hyp: "live_document (surface_at 0 40 None) = Some ?d"
    by (simp add: surface_at_def live_document_def)
  have "dispatch_scroll (surface_at 0 40 None) = [scroll_listener ?d]"
    using dispatch_scroll_live [OF hyp] by simp
  with scroll_report_first_nonzero [OF hyp] hyp show ?thesis by simp
qed

text \<open>
  C3, as stated, fails: in a context whose document-level offset is 5 and whose
  body-level offset is 10 the event carries 5, not the larger offset 10.
\<close>

theorem scroll_report_max_counterexample:
  "dispatch_scroll (surface_at 5 10 None) = [EmitScroll 5]
   \<and> EmitScroll 5 \<noteq> EmitScroll (max 5 10)"
  by (simp add: surface_at_def dispatch_scroll_def live_document_def scroll_listener_def
        js_or_def)

section \<open>The marker section of the payload\<close>

















section \<open>The live style update\<close>

lemma find_node_id:
  "find_node i n = Some e \<Longrightarrow> \<exists>tg cs. e = Element tg i cs"
  "find_nodes i ns = Some e \<Longrightarrow> \<exists>tg cs. e = Element tg i cs"
  by (induction i n and i ns rule: find_node_find_nodes.induct)
     (auto split: if_splits option.splits)

lemma set_text_absent:
  "find_node i n = None \<Longrightarrow> set_text_node i t n = n"
  "find_nodes i ns = None \<Longrightarrow> set_text_nodes i t ns = ns"
  by (induction i n and i ns rule: find_node_find_nodes.induct)
     (auto split: if_splits option.splits)




lemma textContent_text_children: "textContent (Element tg i (text_children t)) = t"
  by (simp add: text_children_def)




lemma put_document_frame:
  "props (put_document d s) = props s"
  "styleOverrides (put_document d s) = styleOverrides s"
  "console (put_document d s) = console s"
  by (simp_all add: put_document_def)

lemma put_document_twice: "put_document d (put_document d' s) = put_document d s"
  by (cases "iframeRef s") (simp_all add: put_document_def)


















section \<open>Scroll synchronisation between the panels\<close>

lemma live_document_props [simp]:
  "live_document (s\<lparr>props := q\<rparr>) = live_document s"
  by (simp add: live_document_def)

lemma receive_scrollTop_eq:
  "receive_scrollTop (Some p) s =
     (if scrollTop (props s) = Some p then (s, [])
      else (case live_document s of
              None \<Rightarrow> (s\<lparr>props := (props s)\<lparr>scrollTop := Some p\<rparr>\<rparr>, [])
            | Some doc \<Rightarrow>
                if \<bar>js_or (documentElement_scrollTop doc) (body_scrollTop doc) - p\<bar> > 2
                then (put_document (doc\<lparr>documentElement_scrollTop := p, body_scrollTop := p\<rparr>)
                        (s\<lparr>props := (props s)\<lparr>scrollTop := Some p\<rparr>\<rparr>),
                      replicate (scroll_listeners doc) (EmitScroll p))
                else (s\<lparr>props := (props s)\<lparr>scrollTop := Some p\<rparr>\<rparr>, [])))"
proof (cases "scrollTop (props s) = Some p")
  case True
  then show ?thesis by (simp add: receive_scrollTop_def)
next
  case changed: False
  let ?s1 = "s\<lparr>props := (props s)\<lparr>scrollTop := Some p\<rparr>\<rparr>"
  show ?thesis
  proof (cases "live_document s")
    case None
    then have "watch_scrollTop ?s1 (Some p) = Inr ?s1"
      by (simp add: watch_scrollTop_no_document)
    with changed None show ?thesis by (simp add: receive_scrollTop_def)
  next
    case (Some doc)
    then have live1: "live_document ?s1 = Some doc" by simp
    show ?thesis
    proof (cases "\<bar>js_or (documentElement_scrollTop doc) (body_scrollTop doc) - p\<bar> > 2")
      case far: True
      let ?d = "doc\<lparr>documentElement_scrollTop := p, body_scrollTop := p\<rparr>"
      from live1 far have w: "watch_scrollTop ?s1 (Some p) = Inr (put_document ?d ?s1)"
        by (rule watch_scrollTop_apply)
      from live1 have o2: "scroll_offsets (put_document ?d ?s1) = Some (p, p)"
        by (simp add: scroll_offsets_put)
      from live1 have o1: "scroll_offsets ?s1
          = Some (documentElement_scrollTop doc, body_scrollTop doc)"
        by (simp add: scroll_offsets_def)
      from far have "(documentElement_scrollTop doc, body_scrollTop doc) \<noteq> (p, p)"
        by (auto simp: js_or_def split: if_splits)
      with o1 o2 have ne: "scroll_offsets (put_document ?d ?s1) \<noteq> scroll_offsets ?s1" by auto
      from live1 have "live_document (put_document ?d ?s1) = Some ?d" by (rule live_document_put)
      then have "dispatch_scroll (put_document ?d ?s1) = replicate (scroll_listeners doc) (EmitScroll p)"
        by (simp add: dispatch_scroll_def scroll_listener_def js_or_def)
      with changed Some far w ne show ?thesis
        by (simp add: receive_scrollTop_def)
    next
      case near: False
      from live1 near have "watch_scrollTop ?s1 (Some p) = Inr ?s1"
        by (rule watch_scrollTop_skip)
      with changed Some near show ?thesis by (simp add: receive_scrollTop_def)
    qed
  qed
qed

lemma receive_scrollTop_prop:
  "scrollTop (props (fst (receive_scrollTop (Some p) s))) = Some p"
  by (simp add: receive_scrollTop_eq put_document_frame split: option.splits)






lemma render_scrollTop_eq:
  "render_scrollTop st =
     (st\<lparr>editBar := fst (receive_scrollTop (Some (sharedScrollTop st)) (editBar st)),
         renderBase := map_option (\<lambda>r. fst (receive_scrollTop (Some (sharedScrollTop st)) r))
                         (renderBase st)\<rparr>,
      scroll_events Preview (snd (receive_scrollTop (Some (sharedScrollTop st)) (editBar st)))
      @ (case renderBase st of
           None \<Rightarrow> []
         | Some r \<Rightarrow> scroll_events Sandbox (snd (receive_scrollTop (Some (sharedScrollTop st)) r))))"
  by (simp add: render_scrollTop_def scroll_events_def split: prod.splits option.splits)

lemma render_scrollTop_shared:
  "sharedScrollTop (fst (render_scrollTop st)) = sharedScrollTop st"
  by (simp add: render_scrollTop_eq)

lemma render_scrollTop_editBar:
  "scrollTop (props (editBar (fst (render_scrollTop st)))) = Some (sharedScrollTop st)"
  by (simp add: render_scrollTop_eq receive_scrollTop_prop)

lemma render_scrollTop_renderBase:
  "renderBase (fst (render_scrollTop st)) = Some r \<Longrightarrow>
   scrollTop (props r) = Some (sharedScrollTop st)"
  by (auto simp: render_scrollTop_eq receive_scrollTop_prop)

lemma render_scrollTop_mounted:
  "renderBase (fst (render_scrollTop st)) = None \<longleftrightarrow> renderBase st = None"
  by (simp add: render_scrollTop_eq)



lemma report_shared: "sharedScrollTop (fst (report (src, p) st)) = p"
  by (simp add: report_def handleScroll_def render_scrollTop_shared)

lemma report_editBar: "scrollTop (props (editBar (fst (report (src, p) st)))) = Some p"
  using render_scrollTop_editBar [of "handleScroll p st"]
  by (simp add: report_def handleScroll_def)

lemma report_renderBase:
  "renderBase (fst (report (src, p) st)) = Some r \<Longrightarrow> scrollTop (props r) = Some p"
  using render_scrollTop_renderBase [of "handleScroll p st" r]
  by (simp add: report_def handleScroll_def)











text \<open>
  C10. After a report of position \<open>p\<close> by either panel the shared position is \<open>p\<close> and
  every mounted panel, the reporting one included, has \<open>p\<close> as its \<^verbatim>\<open>scrollTop\<close> prop;
  the sandbox panel is mounted after the report exactly if it was before; and the
  container does the same whichever panel reported.
\<close>

theorem report_reaches_both_panels:
  "sharedScrollTop (fst (report (src, p) st)) = p
   \<and> (\<forall>x r. panel_surface x (fst (report (src, p) st)) = Some r \<longrightarrow>
         scrollTop (props r) = Some p)
   \<and> (\<exists>r. panel_surface Preview (fst (report (src, p) st)) = Some r)
   \<and> (panel_surface Sandbox (fst (report (src, p) st)) = None
        \<longleftrightarrow> panel_surface Sandbox st = None)
   \<and> report (Preview, p) st = report (Sandbox, p) st"
proof (intro conjI allI impI)
  show "sharedScrollTop (fst (report (src, p) st)) = p" by (rule report_shared)
next
  fix x r assume "panel_surface x (fst (report (src, p) st)) = Some r"
  then show "scrollTop (props r) = Some p"
    by (cases x) (auto simp: panel_surface_def report_editBar report_renderBase)
next
  show "\<exists>r. panel_surface Preview (fst (report (src, p) st)) = Some r"
    by (simp add: panel_surface_def)
next
  show "panel_surface Sandbox (fst (report (src, p) st)) = None
        \<longleftrightarrow> panel_surface Sandbox st = None"
    by (simp add: panel_surface_def report_def handleScroll_def render_scrollTop_eq)
next
  show "report (Preview, p) st = report (Sandbox, p) st"
    by (simp add: report_def)
qed

text \<open>
  Both panels at 0; the sandbox is scrolled to 100 and reports it: the sandbox itself
  is handed 100 as well.
\<close>

theorem report_reaches_both_panels_witness:
  "panel_surface Sandbox
     (fst (report (Sandbox, 100)
        \<lparr>sharedScrollTop = 0, editBar = surface_at 0 0 (Some 0),
         renderBase = Some (surface_at 100 0 (Some 0))\<rparr>))
     = Some (surface_at 100 0 (Some 100))
   \<and> scrollTop (props (surface_at 100 0 (Some 100))) = Some 100
   \<and> panel_surface Preview
     (fst (report (Sandbox, 100)
        \<lparr>sharedScrollTop = 0, editBar = surface_at 0 0 (Some 0),
         renderBase = Some (surface_at 100 0 (Some 0))\<rparr>))
     = Some (surface_at 100 100 (Some 100))"
proof -
  let ?st = "\<lparr>sharedScrollTop = 0, editBar = surface_at 0 0 (Some 0),
         renderBase = Some (surface_at 100 0 (Some 0))\<rparr>"
  have ev: "report (Sandbox, 100) ?st
      = (\<lparr>sharedScrollTop = 100, editBar = surface_at 100 100 (Some 100),
          renderBase = Some (surface_at 100 0 (Some 100))\<rparr>, [(Preview, 100)])"
    by (simp add: report_def handleScroll_def render_scrollTop_def receive_scrollTop_def
        watch_scrollTop_def live_document_def put_document_def scroll_offsets_def
        dispatch_scroll_def scroll_listener_def js_or_def scroll_events_def surface_at_def)
  have sb: "panel_surface Sandbox (fst (report (Sandbox, 100) ?st))
      = Some (surface_at 100 0 (Some 100))"
    and pv: "panel_surface Preview (fst (report (Sandbox, 100) ?st))
      = Some (surface_at 100 100 (Some 100))"
    by (simp_all add: ev panel_surface_def)
  from report_reaches_both_panels [of Sandbox 100 ?st] sb
  have "scrollTop (props (surface_at 100 0 (Some 100))) = Some 100"
    by blast
  with sb pv show ?thesis by simp
qed

end
